theory Spec2Isabelle
  imports Complex_Main "HOL-Library.Extended_Nat"
begin

unbundle bit_operations_syntax

section \<open>Python values and exceptions\<close>

text \<open>
  The exceptions the modelled code can raise. Python floats are idealised as reals
  throughout: rounding, overflow and the infinities are outside the model, while every
  exception that the arithmetic raises on an exact value (division by zero, the domain
  errors of \<^verbatim>\<open>math.log\<close> and \<^verbatim>\<open>math.sqrt\<close>) is a branch of it.
  \<^verbatim>\<open>UnboundLocalError\<close> is Python's subclass of \<^verbatim>\<open>NameError\<close> for a local
  variable read before any assignment.
\<close>

datatype error =
    ZeroDivisionError
  | TypeError
  | ValueError
  | IndexError
  | RuntimeError
  | AttributeError
  | UnboundLocalError
  | ShapeError
  | ExternalError


text \<open>A Python number is an \<^verbatim>\<open>int\<close> (unbounded) or a \<^verbatim>\<open>float\<close>.\<close>

datatype pynum = PyInt int | PyFloat real

section \<open>train.py: the PAC-Bayes bound\<close>

text \<open>
  \<^verbatim>\<open>
  def PAC_KL(tr_loss, exp_sharpness, l2_reg, setsize, sigma=1, delta=0.2):
      term = 4 * math.sqrt(
          ((1 / setsize) * (l2_reg / (2 * (sigma ^ 2)))) + math.log((2 * setsize) / delta))
      return tr_loss + exp_sharpness + term
  \<close>
  In Python \<^verbatim>\<open>^\<close> is bitwise exclusive or: it is defined on two ints and raises
  \<^verbatim>\<open>TypeError\<close> when \<^verbatim>\<open>sigma\<close> is a float. Only \<^verbatim>\<open>sigma\<close> is therefore typed;
  the other arguments enter through \<^verbatim>\<open>/\<close>, \<^verbatim>\<open>*\<close> and \<^verbatim>\<open>+\<close> alone and are
  given by their numeric value. The branches follow Python's evaluation order.
\<close>

definition PAC_KL :: "real \<Rightarrow> real \<Rightarrow> real \<Rightarrow> real \<Rightarrow> pynum \<Rightarrow> real \<Rightarrow> error + real" where
  "PAC_KL tr_loss exp_sharpness l2_reg setsize sigma delta =
     (if setsize = 0 then Inl ZeroDivisionError
      else case sigma of
        PyFloat _ \<Rightarrow> Inl TypeError
      | PyInt s \<Rightarrow>
          (let d = 2 * (s XOR 2) in
           if d = 0 then Inl ZeroDivisionError
           else if delta = 0 then Inl ZeroDivisionError
           else
             (let a = (2 * setsize) / delta in
              if a \<le> 0 then Inl ValueError
              else
                (let r = (1 / setsize) * (l2_reg / real_of_int d) + ln a in
                 if r < 0 then Inl ValueError
                 else Inr (tr_loss + exp_sharpness + 4 * sqrt r)))))"

text \<open>
  The bound as the specification words it, with twice the square of \<open>sigma\<close> as the
  denominator of the complexity term.
\<close>

definition PAC_KL_spec :: "real \<Rightarrow> real \<Rightarrow> real \<Rightarrow> real \<Rightarrow> real \<Rightarrow> real \<Rightarrow> real" where
  "PAC_KL_spec tr_loss exp_sharpness l2_reg setsize sigma delta =
     tr_loss + exp_sharpness
       + 4 * sqrt ((1 / setsize) * (l2_reg / (2 * sigma\<^sup>2)) + ln ((2 * setsize) / delta))"

section \<open>Tensors\<close>

text \<open>
  A tensor is a scalar or a sequence of sub-tensors along its first dimension.
  \<open>flatten\<close> lists the elements in storage order, \<open>tmap\<close> applies an element-wise
  operation, and \<open>view_rows\<close> is \<^verbatim>\<open>t.view(t.size(0), -1)\<close>: one row per entry of
  the first dimension, all other dimensions flattened together. \<^verbatim>\<open>size(0)\<close> raises
  \<^verbatim>\<open>IndexError\<close> on a tensor without dimensions, and \<^verbatim>\<open>view(0, -1)\<close> raises
  \<^verbatim>\<open>RuntimeError\<close> because the free dimension is ambiguous.
\<close>

datatype tensor = Scalar real | Tensor "tensor list"

fun flatten :: "tensor \<Rightarrow> real list" where
  "flatten (Scalar x) = [x]"
| "flatten (Tensor ts) = concat (map flatten ts)"

fun tmap :: "(real \<Rightarrow> real) \<Rightarrow> tensor \<Rightarrow> tensor" where
  "tmap f (Scalar x) = Scalar (f x)"
| "tmap f (Tensor ts) = Tensor (map (tmap f) ts)"

fun view_rows :: "tensor \<Rightarrow> error + real list list" where
  "view_rows (Scalar x) = Inl IndexError"
| "view_rows (Tensor ts) = (if ts = [] then Inl RuntimeError else Inr (map flatten ts))"

text \<open>
  \<^verbatim>\<open>v.norm(p)\<close> on a vector: the number of non-zero entries for \<open>p = 0\<close>, the
  largest absolute value for \<open>p = \<infinity>\<close> (the maximum is taken from 0, so it is 0 on
  the empty vector), and the \<open>p\<close>-th root of the sum of the \<open>p\<close>-th powers of the
  absolute values otherwise. Orders are non-negative integers or infinity.
\<close>

fun vec_norm :: "enat \<Rightarrow> real list \<Rightarrow> real" where
  "vec_norm \<infinity> xs = fold max (map abs xs) 0"
| "vec_norm (enat p) xs =
     (if p = 0 then real (length (filter (\<lambda>x. x \<noteq> 0) xs))
      else root p (\<Sum>x\<leftarrow>xs. \<bar>x\<bar> ^ p))"

section \<open>norms/measures.py: modules and per-layer measures\<close>

text \<open>
  What the measures read of an \<^verbatim>\<open>nn.Module\<close>: its class name
  (\<^verbatim>\<open>_get_name()\<close>), whether the object can be iterated (\<^verbatim>\<open>nn.Sequential\<close> and
  \<^verbatim>\<open>nn.ModuleList\<close> can, and iteration yields their children; any other module raises
  \<^verbatim>\<open>TypeError\<close> under \<^verbatim>\<open>for child in module\<close>), its \<^verbatim>\<open>weight\<close> attribute, and its
  children (\<^verbatim>\<open>children()\<close>). The weight attribute is absent (reading it raises
  \<^verbatim>\<open>AttributeError\<close>), a plain tensor, or a registered \<^verbatim>\<open>nn.Parameter\<close>.
\<close>

datatype attr = Missing | Plain tensor | Param tensor

fun attr_value :: "attr \<Rightarrow> error + tensor" where
  "attr_value Missing = Inl AttributeError"
| "attr_value (Plain t) = Inr t"
| "attr_value (Param t) = Inr t"

datatype module =
  Module (get_name: string) (iterable: bool) (weight: attr) (children: "module list")

definition layer_names :: "string list" where
  "layer_names = [''Linear'', ''Conv1d'', ''Conv2d'', ''Conv3d'']"

text \<open>
  \<^verbatim>\<open>
  def norm(module, p=2, q=2):
      return module.weight.view(module.weight.size(0), -1).norm(p=p, dim=1).norm(q).item()
  \<close>
\<close>

definition norm_pq :: "module \<Rightarrow> enat \<Rightarrow> enat \<Rightarrow> error + real" where
  "norm_pq m p q =
     (case attr_value (weight m) of
        Inl e \<Rightarrow> Inl e
      | Inr w \<Rightarrow>
          (case view_rows w of
             Inl e \<Rightarrow> Inl e
           | Inr rows \<Rightarrow> Inr (vec_norm q (map (vec_norm p) rows))))"

text \<open>
  \<^verbatim>\<open>
  def op_norm(module, p=float('Inf')):
      _, S, _ = module.weight.view(module.weight.size(0), -1).svd()
      return S.norm(p).item()
  \<close>
  The singular value decomposition is the tensor library's; \<open>svd_S\<close> stands for the
  map from a matrix to its singular values.
\<close>

definition op_norm :: "(real list list \<Rightarrow> real list) \<Rightarrow> module \<Rightarrow> enat \<Rightarrow> error + real" where
  "op_norm svd_S m p =
     (case attr_value (weight m) of
        Inl e \<Rightarrow> Inl e
      | Inr w \<Rightarrow>
          (case view_rows w of
             Inl e \<Rightarrow> Inl e
           | Inr rows \<Rightarrow> Inr (vec_norm p (svd_S rows))))"

text \<open>
  \<^verbatim>\<open>
  def calc_norm(module_list, p: int, q: int, result: int):
      for child in module_list:
          module_name = child._get_name()
          if module_name in ['Linear', 'Conv1d', 'Conv2d', 'Conv3d']:
              result += math.log(norm(child, p, q))
          else:
              calc_norm(child, p, q, result)
      return math.exp(result)
  \<close>
  The first argument is the sequence the loop runs over. \<^verbatim>\<open>math.log\<close> raises
  \<^verbatim>\<open>ValueError\<close> on 0. The recursive call iterates the child itself, so a child that
  is not iterable raises \<^verbatim>\<open>TypeError\<close>; where it returns, its value is dropped and
  \<^verbatim>\<open>result\<close>, a float of the caller, is what it was before the call.
\<close>

fun calc_norm :: "module list \<Rightarrow> enat \<Rightarrow> enat \<Rightarrow> real \<Rightarrow> error + real" where
  "calc_norm [] p q result = Inr (exp result)"
| "calc_norm (Module name it w cs # rest) p q result =
     (if name \<in> set layer_names then
        (case norm_pq (Module name it w cs) p q of
           Inl e \<Rightarrow> Inl e
         | Inr v \<Rightarrow>
             if v \<le> 0 then Inl ValueError
             else calc_norm rest p q (result + ln v))
      else if \<not> it then Inl TypeError
      else
        (case calc_norm cs p q result of
           Inl e \<Rightarrow> Inl e
         | Inr _ \<Rightarrow> calc_norm rest p q result))"

text \<open>
  \<^verbatim>\<open>
  def calc_spectral_norm(model, p: int, result: int):
      for child in list(model.children()):
          module_name = child._get_name()
          if module_name in ['Linear', 'Conv1d', 'Conv2d', 'Conv3d']:
              result += math.log(op_norm(child, p))
          else:
              calc_spectral_norm(child, p, result)
      return math.exp(result)
  \<close>
  \<open>spectral_loop\<close> is the loop over the children from some position on, followed by
  the \<^verbatim>\<open>return\<close>.
\<close>

fun calc_spectral_norm ::
    "(real list list \<Rightarrow> real list) \<Rightarrow> module \<Rightarrow> enat \<Rightarrow> real \<Rightarrow> error + real"
  and spectral_loop ::
    "(real list list \<Rightarrow> real list) \<Rightarrow> module list \<Rightarrow> enat \<Rightarrow> real \<Rightarrow> error + real" where
  "calc_spectral_norm svd_S (Module name it w cs) p result = spectral_loop svd_S cs p result"
| "spectral_loop svd_S [] p result = Inr (exp result)"
| "spectral_loop svd_S (child # rest) p result =
     (if get_name child \<in> set layer_names then
        (case op_norm svd_S child p of
           Inl e \<Rightarrow> Inl e
         | Inr v \<Rightarrow>
             if v \<le> 0 then Inl ValueError
             else spectral_loop svd_S rest p (result + ln v))
      else
        (case calc_spectral_norm svd_S child p result of
           Inl e \<Rightarrow> Inl e
         | Inr _ \<Rightarrow> spectral_loop svd_S rest p result))"

text \<open>
  A fully connected layer with one input, one output and the weight 2, used as a
  concrete input below: \<^verbatim>\<open>nn.Linear(1, 1)\<close> with \<^verbatim>\<open>weight = [[2.0]]\<close>.
\<close>

definition linear_2 :: module where
  "linear_2 = Module ''Linear'' False (Param (Tensor [Tensor [Scalar 2]])) []"

section \<open>main.py and train.py: validate\<close>

text \<open>
  The network's output on a batch of \<open>B\<close> inputs is a \<open>B \<times> C\<close> tensor of class
  scores, given as the list of its rows, with \<open>C \<ge> 1\<close>. A result of any other shape
  makes \<^verbatim>\<open>output.max(1)\<close>, \<^verbatim>\<open>pred.eq(target)\<close> or the criterion raise;
  \<open>ShapeError\<close> stands for that exception. Class labels are non-negative integers.
\<close>

type_synonym scores = "real list list"

definition is_scores :: "scores \<Rightarrow> nat \<Rightarrow> bool" where
  "is_scores output b =
     (length output = b \<and>
      (case output of
         [] \<Rightarrow> True
       | r # rs \<Rightarrow> r \<noteq> [] \<and> list_all (\<lambda>x. length x = length r) rs))"

text \<open>\<^verbatim>\<open>row.max(0)[1]\<close>: the first position that holds the largest entry of a row.\<close>

definition argmax :: "real list \<Rightarrow> nat" where
  "argmax xs = length (takeWhile (\<lambda>x. x \<noteq> Max (set xs)) xs)"

text \<open>
  \<^verbatim>\<open>
  for i in range(target.size(0)):
      output_m[i, target[i]] = output_m[i, :].min()
  \<close>
  from position \<open>i\<close> on, with the labels still to be visited as a list.
\<close>

fun fill_targets :: "scores \<Rightarrow> nat list \<Rightarrow> nat \<Rightarrow> error + scores" where
  "fill_targets output_m [] i = Inr output_m"
| "fill_targets output_m (t # ts) i =
     (if length output_m \<le> i then Inl IndexError
      else
        (let row = output_m ! i in
         if row = [] then Inl RuntimeError
         else if length row \<le> t then Inl IndexError
         else fill_targets (output_m[i := row[t := Min (set row)]]) ts (Suc i)))"

text \<open>
  \<^verbatim>\<open>m[:, idx]\<close> selects, in every row, the columns listed in \<open>idx\<close>;
  \<^verbatim>\<open>m.diag()\<close> is the main diagonal of a matrix; \<open>tsub\<close> is the element-wise
  difference of two vectors of one length.
\<close>

definition index_cols :: "scores \<Rightarrow> nat list \<Rightarrow> error + scores" where
  "index_cols m idx =
     (if list_all (\<lambda>row. list_all (\<lambda>k. k < length row) idx) m
      then Inr (map (\<lambda>row. map (\<lambda>k. row ! k) idx) m)
      else Inl IndexError)"

definition diag :: "scores \<Rightarrow> real list" where
  "diag m =
     map (\<lambda>i. m ! i ! i) [0..<min (length m) (case m of [] \<Rightarrow> 0 | r # _ \<Rightarrow> length r)]"

definition tsub :: "real list \<Rightarrow> real list \<Rightarrow> error + real list" where
  "tsub a b = (if length a = length b then Inr (map2 (-) a b) else Inl ShapeError)"

text \<open>
  The margins of one batch, the same lines in both files:
  \<^verbatim>\<open>
  output_m = output.clone()
  for i in range(target.size(0)):
      output_m[i, target[i]] = output_m[i,:].min()
  margin = torch.cat((margin, output[:, target].diag() - output_m[:, output_m.max(1)[1]].diag()), 0)
  \<close>
  \<open>batch_margin\<close> is the tensor that is appended to \<^verbatim>\<open>margin\<close>.
\<close>

definition batch_margin :: "scores \<Rightarrow> nat list \<Rightarrow> error + real list" where
  "batch_margin output target =
     (case fill_targets output target 0 of
        Inl e \<Rightarrow> Inl e
      | Inr output_m \<Rightarrow>
          (case index_cols output target of
             Inl e \<Rightarrow> Inl e
           | Inr true_scores \<Rightarrow>
               (case index_cols output_m (map argmax output_m) of
                  Inl e \<Rightarrow> Inl e
                | Inr best_other \<Rightarrow> tsub (diag true_scores) (diag best_other))))"

text \<open>
  The loop of \<^verbatim>\<open>validate\<close> keeps three accumulators. A batch is the collation of
  its samples \<open>(x, y)\<close>: \<^verbatim>\<open>data\<close> holds the inputs and \<^verbatim>\<open>target\<close> the labels.
  The network (in evaluation mode) and the criterion are arguments.
  \<^verbatim>\<open>
  output = model(data)
  pred = output.max(1)[1]
  sum_correct += pred.eq(target).sum().item()
  sum_loss += len(data) * criterion(output, target).item()
  \<close>
\<close>

record acc =
  sum_loss :: real
  sum_correct :: nat
  margin :: "real list"

definition validate_batch ::
    "('x list \<Rightarrow> scores) \<Rightarrow> (scores \<Rightarrow> nat list \<Rightarrow> real) \<Rightarrow> acc \<Rightarrow> ('x \<times> nat) list
      \<Rightarrow> error + acc" where
  "validate_batch model criterion a b =
     (let data = map fst b; target = map snd b; output = model data in
      if \<not> is_scores output (length data) then Inl ShapeError
      else
        (let pred = map argmax output;
             correct = length (filter (\<lambda>(p, t). p = t) (zip pred target));
             loss = criterion output target
         in case batch_margin output target of
              Inl e \<Rightarrow> Inl e
            | Inr ms \<Rightarrow>
                Inr \<lparr>sum_loss = sum_loss a + real (length data) * loss,
                     sum_correct = sum_correct a + correct,
                     margin = margin a @ ms\<rparr>))"

fun validate_loop ::
    "('x list \<Rightarrow> scores) \<Rightarrow> (scores \<Rightarrow> nat list \<Rightarrow> real) \<Rightarrow> ('x \<times> nat) list list \<Rightarrow> acc
      \<Rightarrow> error + acc" where
  "validate_loop model criterion [] a = Inr a"
| "validate_loop model criterion (b # bs) a =
     (case validate_batch model criterion a b of
        Inl e \<Rightarrow> Inl e
      | Inr a' \<Rightarrow> validate_loop model criterion bs a')"

text \<open>
  \<^verbatim>\<open>np.percentile(a, q)\<close> with NumPy's default linear interpolation: the value at
  the fractional position \<open>(n - 1) * q / 100\<close> of the sorted array. NumPy raises
  \<^verbatim>\<open>ValueError\<close> for \<open>q\<close> outside \<open>[0, 100]\<close>; on an empty array it yields no
  number (\<^verbatim>\<open>IndexError\<close> in the releases that raise, \<^verbatim>\<open>nan\<close> in the others), which
  is the branch \<open>Inl IndexError\<close>.
\<close>

definition np_percentile :: "real list \<Rightarrow> real \<Rightarrow> real" where
  "np_percentile a q =
     (let s = sort a;
          h = (real (length a) - 1) * q / 100;
          lo = nat \<lfloor>h\<rfloor>;
          hi = min (lo + 1) (length a - 1)
      in s ! lo + (h - real lo) * (s ! hi - s ! lo))"

definition percentile :: "real list \<Rightarrow> real \<Rightarrow> error + real" where
  "percentile a q =
     (if q < 0 \<or> 100 < q then Inl ValueError
      else if a = [] then Inl IndexError
      else Inr (np_percentile a q))"

text \<open>
  A \<^verbatim>\<open>DataLoader\<close>: the batches it yields, \<^verbatim>\<open>len(loader.sampler)\<close> and
  \<^verbatim>\<open>len(loader.dataset)\<close>. A sampler is true in a condition when its length is not 0.
\<close>

record 'x data_loader =
  batches :: "('x \<times> nat) list list"
  sampler_len :: nat
  dataset_len :: nat

text \<open>
  main.py (the arguments \<^verbatim>\<open>args\<close> and \<^verbatim>\<open>device\<close> are not read by the
  computation):
  \<^verbatim>\<open>
  def validate(args, model, device, val_loader, criterion):
      sum_loss, sum_correct = 0, 0
      margin = torch.Tensor([]).to(device)
      ...
      val_margin = np.percentile( margin.cpu().numpy(), 5 )
      return 1 - (sum_correct / len(val_loader.dataset)), sum_loss / len(val_loader.dataset), val_margin
  \<close>
\<close>

definition main_validate ::
    "('x list \<Rightarrow> scores) \<Rightarrow> 'x data_loader \<Rightarrow> (scores \<Rightarrow> nat list \<Rightarrow> real)
      \<Rightarrow> error + real \<times> real \<times> real" where
  "main_validate model val_loader criterion =
     (case validate_loop model criterion (batches val_loader)
             \<lparr>sum_loss = 0, sum_correct = 0, margin = []\<rparr> of
        Inl e \<Rightarrow> Inl e
      | Inr a \<Rightarrow>
          (case percentile (margin a) 5 of
             Inl e \<Rightarrow> Inl e
           | Inr val_margin \<Rightarrow>
               if dataset_len val_loader = 0 then Inl ZeroDivisionError
               else Inr (1 - real (sum_correct a) / real (dataset_len val_loader),
                         sum_loss a / real (dataset_len val_loader), val_margin)))"

text \<open>
  train.py:
  \<^verbatim>\<open>
  def validate(model, device, data_loader: DataLoader, criterion):
      ...
          margin = np.percentile(margin.cpu().numpy(), 5)
          if data_loader.sampler:
              len_dataset = len(data_loader.sampler)
          else:
              len_dataset = len(data_loader.dataset)
      return 1 - (sum_correct / len_dataset), (sum_loss / len_dataset), margin
  \<close>
\<close>

definition train_validate ::
    "('x list \<Rightarrow> scores) \<Rightarrow> 'x data_loader \<Rightarrow> (scores \<Rightarrow> nat list \<Rightarrow> real)
      \<Rightarrow> error + real \<times> real \<times> real" where
  "train_validate model data_loader criterion =
     (case validate_loop model criterion (batches data_loader)
             \<lparr>sum_loss = 0, sum_correct = 0, margin = []\<rparr> of
        Inl e \<Rightarrow> Inl e
      | Inr a \<Rightarrow>
          (case percentile (margin a) 5 of
             Inl e \<Rightarrow> Inl e
           | Inr m \<Rightarrow>
               (let len_dataset =
                      (if sampler_len data_loader \<noteq> 0 then sampler_len data_loader
                       else dataset_len data_loader)
                in if len_dataset = 0 then Inl ZeroDivisionError
                   else Inr (1 - real (sum_correct a) / real len_dataset,
                             sum_loss a / real len_dataset, m))))"

subsection \<open>What the specification says validate returns\<close>

text \<open>
  A batch is well formed for \<open>c\<close> classes when the output has one row of \<open>c\<close> scores
  per label and every label is a class. \<open>fill_row\<close> is one step of the loop over the
  labels. \<open>gap\<close> follows the glossary: the true-class score minus the best score among
  the other classes. The remaining definitions are the quantities of the evaluation set
  that the returned triple is compared with: the number of examples, the number of
  examples whose predicted class is the label, the sum of the batch losses weighted by
  the batch lengths, and the per-example margins of all batches in order.
\<close>

definition wf_batch :: "nat \<Rightarrow> scores \<Rightarrow> nat list \<Rightarrow> bool" where
  "wf_batch c output target =
     (length output = length target \<and> list_all (\<lambda>row. length row = c) output
      \<and> list_all (\<lambda>t. t < c) target)"

definition fill_row :: "real list \<Rightarrow> nat \<Rightarrow> real list" where
  "fill_row row t = row[t := Min (set row)]"

definition gap :: "real list \<Rightarrow> nat \<Rightarrow> real" where
  "gap row t = row ! t - Max (set (take t row @ drop (Suc t) row))"

definition n_examples :: "('x \<times> nat) list list \<Rightarrow> nat" where
  "n_examples bs = sum_list (map length bs)"

definition n_correct :: "('x list \<Rightarrow> scores) \<Rightarrow> ('x \<times> nat) list list \<Rightarrow> nat" where
  "n_correct model bs =
     (\<Sum>b\<leftarrow>bs. length (filter (\<lambda>(row, t). argmax row = t)
                          (zip (model (map fst b)) (map snd b))))"

definition weighted_loss ::
    "('x list \<Rightarrow> scores) \<Rightarrow> (scores \<Rightarrow> nat list \<Rightarrow> real) \<Rightarrow> ('x \<times> nat) list list \<Rightarrow> real" where
  "weighted_loss model criterion bs =
     (\<Sum>b\<leftarrow>bs. real (length b) * criterion (model (map fst b)) (map snd b))"

definition all_margins :: "('x list \<Rightarrow> scores) \<Rightarrow> ('x \<times> nat) list list \<Rightarrow> real list" where
  "all_margins model bs = concat (map (\<lambda>b. map2 gap (model (map fst b)) (map snd b)) bs)"

text \<open>
  A concrete evaluation set: three examples in two batches, three classes, and a
  network that scores the inputs 0, 1 and 2 as listed.
\<close>

definition example_loader :: "nat data_loader" where
  "example_loader =
     \<lparr>batches = [[(0, 1), (1, 0)], [(2, 2)]], sampler_len = 3, dataset_len = 3\<rparr>"

definition example_net :: "nat list \<Rightarrow> scores" where
  "example_net xs =
     map (\<lambda>x. if x = 0 then [1, 5, 3] else if x = 1 then [4, 2, 0] else [7, 8, 2]) xs"

text \<open>
  The first batch of the example set, whose two examples are classified correctly, and
  the accumulators as \<^verbatim>\<open>validate\<close> initialises them.
\<close>

definition example_batch :: "(nat \<times> nat) list" where
  "example_batch = [(0, 1), (1, 0)]"

definition acc0 :: acc where
  "acc0 = \<lparr>sum_loss = 0, sum_correct = 0, margin = []\<rparr>"

section \<open>norms/measures.py and train.py: sharpness\<close>

text \<open>
  \<^verbatim>\<open>
  def add_module_perturbation(module, alpha=5e-4):
      """
      add perturbation v = alpha * (|w| + 1) to a module
      """
      module.weight = alpha * (torch.abs(module.weight) + 1)
  \<close>
  The right-hand side is a new plain tensor. Assigning it replaces the attribute; where
  \<^verbatim>\<open>weight\<close> is a registered \<^verbatim>\<open>nn.Parameter\<close> (as in \<^verbatim>\<open>nn.Linear\<close> and the
  convolutions), \<^verbatim>\<open>nn.Module.__setattr__\<close> accepts only a parameter or \<^verbatim>\<open>None\<close> under
  that name and raises \<^verbatim>\<open>TypeError\<close>. The module is changed in place; the model
  returns the changed module.
\<close>

definition add_module_perturbation :: "module \<Rightarrow> real \<Rightarrow> error + module" where
  "add_module_perturbation m alpha =
     (case weight m of
        Missing \<Rightarrow> Inl AttributeError
      | Param w \<Rightarrow> Inl TypeError
      | Plain w \<Rightarrow>
          Inr (Module (get_name m) (iterable m)
                 (Plain (tmap (\<lambda>x. alpha * (\<bar>x\<bar> + 1)) w)) (children m)))"

text \<open>
  \<^verbatim>\<open>
  def add_perturbation(module_list, alpha=5e-4):
      for child in module_list:
          module_name = child._get_name()
          if module_name in ['Linear', 'Conv1d', 'Conv2d', 'Conv3d']:
              add_module_perturbation(child, alpha)
          else:
              add_perturbation(child, alpha)
  \<close>
  The argument is the sequence the loop runs over, and the result is that sequence
  after the in-place changes. A module is taken to occur at one place of the tree.
\<close>

fun add_perturbation :: "module list \<Rightarrow> real \<Rightarrow> error + module list" where
  "add_perturbation [] alpha = Inr []"
| "add_perturbation (Module name it w cs # rest) alpha =
     (if name \<in> set layer_names then
        (case add_module_perturbation (Module name it w cs) alpha of
           Inl e \<Rightarrow> Inl e
         | Inr child' \<Rightarrow>
             (case add_perturbation rest alpha of
                Inl e \<Rightarrow> Inl e
              | Inr rest' \<Rightarrow> Inr (child' # rest')))
      else if \<not> it then Inl TypeError
      else
        (case add_perturbation cs alpha of
           Inl e \<Rightarrow> Inl e
         | Inr cs' \<Rightarrow>
             (case add_perturbation rest alpha of
                Inl e \<Rightarrow> Inl e
              | Inr rest' \<Rightarrow> Inr (Module name it w cs' # rest'))))"

text \<open>
  \<^verbatim>\<open>torch.max(x)\<close> with one argument takes a tensor and returns its largest element;
  a Python number raises \<^verbatim>\<open>TypeError\<close>.
\<close>

datatype torch_arg = Number pynum | TensorArg tensor

fun torch_max :: "torch_arg \<Rightarrow> error + real" where
  "torch_max (Number x) = Inl TypeError"
| "torch_max (TensorArg t) =
     (if flatten t = [] then Inl RuntimeError else Inr (Max (set (flatten t))))"

text \<open>
  \<^verbatim>\<open>
  def calc_sharpness(model, device, train_loader, criterion):
      clean_model = copy.deepcopy(model)
      clean_error, clean_loss, clean_margin = validate(clean_model, device, train_loader, criterion)
      add_perturbation(model)
      pert_error, pert_loss, pert_margin = validate(model, device, train_loader, criterion)
      return torch.max(pert_loss - clean_loss)
  \<close>
  \<open>net m\<close> is the function the module tree \<open>m\<close> computes in evaluation mode.
  \<^verbatim>\<open>add_perturbation(model)\<close> iterates the model itself. The two losses are the
  Python floats that \<^verbatim>\<open>validate\<close> returns, and so is their difference.
\<close>

definition calc_sharpness ::
    "(module \<Rightarrow> 'x list \<Rightarrow> scores) \<Rightarrow> module \<Rightarrow> 'x data_loader \<Rightarrow> (scores \<Rightarrow> nat list \<Rightarrow> real)
      \<Rightarrow> error + real" where
  "calc_sharpness net model train_loader criterion =
     (let clean_model = model in
      case train_validate (net clean_model) train_loader criterion of
        Inl e \<Rightarrow> Inl e
      | Inr (clean_error, clean_loss, clean_margin) \<Rightarrow>
          if \<not> iterable model then Inl TypeError
          else
            (case add_perturbation (children model) (5 / 10000) of
               Inl e \<Rightarrow> Inl e
             | Inr cs' \<Rightarrow>
                 (case train_validate
                         (net (Module (get_name model) (iterable model) (weight model) cs'))
                         train_loader criterion of
                    Inl e \<Rightarrow> Inl e
                  | Inr (pert_error, pert_loss, pert_margin) \<Rightarrow>
                      torch_max (Number (PyFloat (pert_loss - clean_loss))))))"

text \<open>
  A layer named \<^verbatim>\<open>Linear\<close> that keeps its weight 3 as a plain tensor attribute, and
  the same layer inside an \<^verbatim>\<open>nn.Sequential\<close>.
\<close>

definition plain_linear_3 :: module where
  "plain_linear_3 = Module ''Linear'' False (Plain (Tensor [Tensor [Scalar 3]])) []"

definition plain_model :: module where
  "plain_model = Module ''Sequential'' True Missing [plain_linear_3]"

section \<open>norms/measures.py: the path norm\<close>

text \<open>
  \<^verbatim>\<open>
  def lp_path_norm(model, device, p=2, input_size=[3, 32, 32]):
      tmp_model = copy.deepcopy(model)
      tmp_model.eval()
      for param in tmp_model.parameters():
          if param.requires_grad:
              param.abs_().pow_(p)
      data_ones = torch.ones(input_size).to(device)
      return (tmp_model(data_ones).sum() ** (1 / p)).item()
  \<close>
  The function copies the model and then changes the copy's parameters in place, so
  parameters are objects on a heap: a store is the list of the parameter objects, and
  an address is a position in it. What the function reads of a model is the list of
  the addresses of its parameters (\<^verbatim>\<open>parameters()\<close>), its mode, and the function it
  computes, which takes the mode, the values of the parameters and the input and may
  raise. The device is not modelled.
\<close>

record parameter =
  data :: tensor
  requires_grad :: bool

type_synonym store = "parameter list"

record network =
  net_params :: "nat list"
  net_training :: bool
  net_forward :: "bool \<Rightarrow> tensor list \<Rightarrow> tensor \<Rightarrow> error + tensor"

text \<open>
  \<^verbatim>\<open>copy.deepcopy(model)\<close> allocates a copy of every parameter behind the objects
  that exist and returns a model that refers to the copies.
\<close>

definition deepcopy :: "store \<Rightarrow> network \<Rightarrow> network \<times> store" where
  "deepcopy s model =
     (model\<lparr>net_params := map (\<lambda>k. length s + k) [0..<length (net_params model)]\<rparr>,
      s @ map (\<lambda>a. s ! a) (net_params model))"

text \<open>
  The loop over the parameters. \<^verbatim>\<open>abs_\<close> and \<^verbatim>\<open>pow_\<close> write into the tensor they
  are called on. While autograd is recording (\<open>grad\<close>, the default outside
  \<^verbatim>\<open>torch.no_grad()\<close>), PyTorch refuses an in-place operation on a leaf tensor that
  requires grad, which every parameter of a copied model is, with \<^verbatim>\<open>RuntimeError\<close>.
  The order \<open>p\<close> is a non-negative integer.
\<close>

fun abs_pow_loop :: "bool \<Rightarrow> nat \<Rightarrow> nat list \<Rightarrow> store \<Rightarrow> (error + unit) \<times> store" where
  "abs_pow_loop grad p [] s = (Inr (), s)"
| "abs_pow_loop grad p (a # as) s =
     (let param = s ! a in
      if requires_grad param then
        if grad then (Inl RuntimeError, s)
        else abs_pow_loop grad p as
               (s[a := param\<lparr>data := tmap (\<lambda>w. w ^ p) (tmap abs (data param))\<rparr>])
      else abs_pow_loop grad p as s)"

fun ones :: "nat list \<Rightarrow> tensor" where
  "ones [] = Scalar 1"
| "ones (n # ns) = Tensor (replicate n (ones ns))"

text \<open>
  \<^verbatim>\<open>x ** (1 / p)\<close> on a float for \<open>p \<ge> 1\<close>: the \<open>p\<close>-th root of a non-negative
  \<open>x\<close>; for negative \<open>x\<close> it is \<open>x\<close> itself when \<open>p = 1\<close> and \<^verbatim>\<open>nan\<close> otherwise.
\<close>

datatype pyfloat = Finite real | NaN

definition pow_inv :: "real \<Rightarrow> nat \<Rightarrow> pyfloat" where
  "pow_inv x p = (if x < 0 \<and> p \<noteq> 1 then NaN else Finite (root p x))"

text \<open>
  The result is paired with the store after the call. \<^verbatim>\<open>1 / p\<close> raises
  \<^verbatim>\<open>ZeroDivisionError\<close> for \<open>p = 0\<close>, after the network has run.
\<close>

definition lp_path_norm ::
    "bool \<Rightarrow> network \<Rightarrow> nat \<Rightarrow> nat list \<Rightarrow> store \<Rightarrow> (error + pyfloat) \<times> store" where
  "lp_path_norm grad model p input_size s =
     (let (copied, s1) = deepcopy s model;
          tmp_model = copied\<lparr>net_training := False\<rparr>
      in case abs_pow_loop grad p (net_params tmp_model) s1 of
           (Inl e, s2) \<Rightarrow> (Inl e, s2)
         | (Inr u, s2) \<Rightarrow>
             (case net_forward tmp_model (net_training tmp_model)
                     (map (\<lambda>a. data (s2 ! a)) (net_params tmp_model)) (ones input_size) of
                Inl e \<Rightarrow> (Inl e, s2)
              | Inr out \<Rightarrow>
                  if p = 0 then (Inl ZeroDivisionError, s2)
                  else (Inr (pow_inv (sum_list (flatten out)) p), s2)))"

subsection \<open>The path norm in the words of the specification\<close>

text \<open>
  The \<open>p\<close>-th root of the summed output of the network, in evaluation mode, in which
  every trainable parameter \<open>w\<close> is replaced by \<open>|w|\<^sup>p\<close>, on an all-ones input of the
  given shape. A model is well formed in a store when its parameters are objects of
  the store.
\<close>

definition abs_pow :: "nat \<Rightarrow> parameter \<Rightarrow> tensor" where
  "abs_pow p param =
     (if requires_grad param then tmap (\<lambda>w. \<bar>w\<bar> ^ p) (data param) else data param)"

definition lp_path_norm_spec :: "network \<Rightarrow> nat \<Rightarrow> nat list \<Rightarrow> store \<Rightarrow> error + pyfloat" where
  "lp_path_norm_spec model p input_size s =
     (case net_forward model False (map (\<lambda>a. abs_pow p (s ! a)) (net_params model))
             (ones input_size) of
        Inl e \<Rightarrow> Inl e
      | Inr out \<Rightarrow> Inr (pow_inv (sum_list (flatten out)) p))"

definition wf_network :: "store \<Rightarrow> network \<Rightarrow> bool" where
  "wf_network s model = list_all (\<lambda>a. a < length s) (net_params model)"

text \<open>
  A concrete model: two parameters, the trainable weight \<open>-3\<close> and the frozen weight
  7, and the network that returns the inner product of the weights with a vector of
  two inputs.
\<close>

definition example_store :: store where
  "example_store =
     [\<lparr>data = Tensor [Scalar (- 3)], requires_grad = True\<rparr>,
      \<lparr>data = Tensor [Scalar 7], requires_grad = False\<rparr>]"

definition weighted_sum :: "tensor list \<Rightarrow> tensor \<Rightarrow> error + tensor" where
  "weighted_sum ws x =
     (if length ws = length (flatten x)
      then Inr (Scalar (\<Sum>(w, v)\<leftarrow>zip (map (\<lambda>t. sum_list (flatten t)) ws) (flatten x). w * v))
      else Inl ShapeError)"

definition example_network :: network where
  "example_network =
     \<lparr>net_params = [0, 1], net_training = True, net_forward = (\<lambda>mode. weighted_sum)\<rparr>"

section \<open>main.py and train.py: the entry points up to the training loop\<close>

text \<open>
  Both \<^verbatim>\<open>main\<close> functions parse the command line, build a model, load the data,
  build the samplers and loaders and then enter the training loop. The model follows
  them up to the loop: \<open>TrainingLoop a n\<close> says that the loop
  \<^verbatim>\<open>for epoch in range(0, args.epochs)\<close> is reached with a network of class \<open>a\<close>
  and a training sampler of \<open>n\<close> samples, \<open>NoTraining msg\<close> that \<^verbatim>\<open>main\<close> has
  printed \<open>msg\<close> and returned before it. The definitions are of a call of
  \<^verbatim>\<open>main\<close>; the imports at the top of the two modules run before any such call
  and are not part of it (main.py imports the name \<^verbatim>\<open>calculate\<close> from
  \<^verbatim>\<open>norms.measures\<close>, which norms/measures.py does not define). The packages
  \<^verbatim>\<open>models\<close> and
  \<^verbatim>\<open>data_utils\<close> are not among the sources: constructing a network is taken to
  succeed, and \<^verbatim>\<open>load_data(split, name, datadir[, nchannels])\<close> is a parameter that
  gives the length of the dataset or the exception it raises.
\<close>

datatype arch = VGG | FC

datatype run = NoTraining string | TrainingLoop arch nat

record env =
  load_data :: "string \<Rightarrow> string \<Rightarrow> string \<Rightarrow> nat option \<Rightarrow> error + nat"

text \<open>The parsed arguments that are read before the loop.\<close>

record main_args =
  args_model :: string
  args_dataset :: string
  args_datadir :: string
  args_trainingsetsize :: int

record train_args =
  args_network :: string
  args_train_datadir :: string
  args_train_trainingsetsize :: int

text \<open>
  main.py:
  \<^verbatim>\<open>
  nchannels, nclasses, img_dim,  = 3, 10, 32
  if args.dataset == 'MNIST': nchannels = 1
  if args.model == "vgg":
      model = vgg.Network(nchannels, nclasses)
  else:
      print("no valid model input.")
      return
  ...
  train_dataset = load_data('train', args.dataset, args.datadir, nchannels)
  val_dataset = load_data('val', args.dataset, args.datadir, nchannels)
  if args.trainingsetsize == -1:
      num_samples = len(train_dataset)
  sampler = torch.utils.data.RandomSampler(train_dataset, replacement=True, num_samples=num_samples)
  \<close>
  \<^verbatim>\<open>num_samples\<close> is a local variable of \<^verbatim>\<open>main\<close>; reading it before any
  assignment raises \<^verbatim>\<open>UnboundLocalError\<close>. \<^verbatim>\<open>RandomSampler\<close> raises
  \<^verbatim>\<open>ValueError\<close> unless \<^verbatim>\<open>num_samples\<close> is a positive integer.
\<close>

definition main_nchannels :: "main_args \<Rightarrow> nat" where
  "main_nchannels args = (if args_dataset args = ''MNIST'' then 1 else 3)"

definition main_py :: "env \<Rightarrow> main_args \<Rightarrow> error + run" where
  "main_py env args =
     (let nchannels = main_nchannels args in
      if args_model args = ''vgg'' then
        (case load_data env ''train'' (args_dataset args) (args_datadir args) (Some nchannels) of
           Inl e \<Rightarrow> Inl e
         | Inr train_len \<Rightarrow>
             (case load_data env ''val'' (args_dataset args) (args_datadir args)
                     (Some nchannels) of
                Inl e \<Rightarrow> Inl e
              | Inr val_len \<Rightarrow>
                  if args_trainingsetsize args = - 1 then
                    (let num_samples = train_len in
                     if num_samples = 0 then Inl ValueError
                     else Inr (TrainingLoop VGG num_samples))
                  else Inl UnboundLocalError))
      else Inr (NoTraining ''no valid model input.''))"

text \<open>
  train.py:
  \<^verbatim>\<open>
  if args.network == 'vgg':
      model = vgg.Network(nchannels, nclasses)
  elif args.network == 'fc':
      model = fc.Network(nchannels, nclasses)
  model = model.to(device)
  ...
  train_dataset = load_data('train', 'CIFAR10', args.datadir)
  val_dataset = load_data('val', 'CIFAR10', args.datadir)
  sampler = torch.utils.data.SubsetRandomSampler(list(range(args.trainingsetsize)))
  \<close>
  With any other network name \<^verbatim>\<open>model\<close> is unbound at \<^verbatim>\<open>model.to(device)\<close>.
  \<^verbatim>\<open>range(n)\<close> is empty for \<open>n \<le> 0\<close>.
\<close>

definition train_py :: "env \<Rightarrow> train_args \<Rightarrow> error + run" where
  "train_py env args =
     (case (if args_network args = ''vgg'' then Some VGG
            else if args_network args = ''fc'' then Some FC else None) of
        None \<Rightarrow> Inl UnboundLocalError
      | Some model \<Rightarrow>
          (case load_data env ''train'' ''CIFAR10'' (args_train_datadir args) None of
             Inl e \<Rightarrow> Inl e
           | Inr train_len \<Rightarrow>
               (case load_data env ''val'' ''CIFAR10'' (args_train_datadir args) None of
                  Inl e \<Rightarrow> Inl e
                | Inr val_len \<Rightarrow>
                    Inr (TrainingLoop model (nat (args_train_trainingsetsize args))))))"



text \<open>
  An environment in which CIFAR10 is on disk, with 50000 training and 10000
  validation images, and command lines for the two entry points.
\<close>

definition cifar_env :: env where
  "cifar_env =
     \<lparr>load_data = (\<lambda>split name dir ch.
        if name = ''CIFAR10'' then Inr (if split = ''train'' then 50000 else 10000)
        else Inl ExternalError)\<rparr>"


definition train_fc :: train_args where
  "train_fc =
     \<lparr>args_network = ''fc'', args_train_datadir = ''../datasets'',
      args_train_trainingsetsize = 50000\<rparr>"

section \<open>Properties of the PAC-Bayes bound\<close>

lemma ln_ten_pos: "0 < ln (10::real)"
  by simp

text \<open>A float \<open>sigma\<close> never gives a bound: \<^verbatim>\<open>sigma ^ 2\<close> raises.\<close>

lemma PAC_KL_float_sigma:
  "setsize \<noteq> 0 \<Longrightarrow> PAC_KL tr_loss exp_sharpness l2_reg setsize (PyFloat x) delta = Inl TypeError"
  by (simp add: PAC_KL_def)

text \<open>
  Claim C2. With training-set size 1, \<open>l2_reg = 6\<close> and \<open>delta = 1/5\<close>: for
  \<open>sigma = 0.5\<close> the code raises \<^verbatim>\<open>TypeError\<close>; for the default \<open>sigma = 1\<close> it
  divides \<open>l2_reg\<close> by \<open>2 * (1 XOR 2) = 6\<close>, not by \<open>2 * 1\<^sup>2 = 2\<close>, and returns
  \<open>4 * sqrt (1 + ln 10)\<close>, whereas the bound of the specification is
  \<open>4 * sqrt (3 + ln 10)\<close>, and the two differ.
\<close>

theorem PAC_KL_xor_not_square:
  "PAC_KL 0 0 6 1 (PyFloat (1/2)) (1/5) = Inl TypeError
   \<and> PAC_KL 0 0 6 1 (PyInt 1) (1/5) = Inr (4 * sqrt (1 + ln 10))
   \<and> PAC_KL_spec 0 0 6 1 1 (1/5) = 4 * sqrt (3 + ln 10)
   \<and> 4 * sqrt (1 + ln (10::real)) \<noteq> 4 * sqrt (3 + ln 10)"
proof -
  have x: "(1::int) XOR 2 = 3" by simp
  have "PAC_KL 0 0 6 1 (PyInt 1) (1/5) = Inr (4 * sqrt (1 + ln 10))"
  proof -
    have "\<not> 1 + ln (10::real) < 0" using ln_ten_pos by linarith
    then show ?thesis by (simp add: PAC_KL_def x Let_def)
  qed
  moreover have "PAC_KL 0 0 6 1 (PyFloat (1/2)) (1/5) = Inl TypeError"
    by (simp add: PAC_KL_def)
  moreover have "PAC_KL_spec 0 0 6 1 1 (1/5) = 4 * sqrt (3 + ln 10)"
    by (simp add: PAC_KL_spec_def)
  moreover have "4 * sqrt (1 + ln (10::real)) \<noteq> 4 * sqrt (3 + ln 10)"
    by simp
  ultimately show ?thesis by blast
qed

section \<open>Properties of the recursive norm aggregation\<close>

lemma norm_pq_linear_2: "norm_pq linear_2 2 2 = Inr 2"
  by (simp add: norm_pq_def linear_2_def numeral_eq_enat)

text \<open>
  On a sequence of layers only, each with a positive norm, both traversals return
  \<open>exp result\<close> times the product of the norms: direct children are aggregated.
\<close>

lemma calc_norm_flat:
  assumes "list_all2 (\<lambda>m v. get_name m \<in> set layer_names \<and> norm_pq m p q = Inr v \<and> 0 < v) ms vs"
  shows "calc_norm ms p q result = Inr (exp result * prod_list vs)"
  using assms
proof (induction ms vs arbitrary: result rule: list_all2_induct)
  case Nil
  then show ?case by simp
next
  case (Cons m ms v vs)
  obtain name it w cs where m: "m = Module name it w cs" by (cases m)
  have "calc_norm (m # ms) p q result = calc_norm ms p q (result + ln v)"
    using Cons.hyps(1) by (simp add: m)
  also have "\<dots> = Inr (exp (result + ln v) * prod_list vs)"
    by (rule Cons.IH)
  also have "exp (result + ln v) * prod_list vs = exp result * prod_list (v # vs)"
    using Cons.hyps(1) by (simp add: exp_add)
  finally show ?case .
qed

lemma spectral_loop_flat:
  assumes "list_all2 (\<lambda>m v. get_name m \<in> set layer_names \<and> op_norm svd_S m p = Inr v \<and> 0 < v) ms vs"
  shows "spectral_loop svd_S ms p result = Inr (exp result * prod_list vs)"
  using assms
proof (induction ms vs arbitrary: result rule: list_all2_induct)
  case Nil
  then show ?case by simp
next
  case (Cons m ms v vs)
  have "spectral_loop svd_S (m # ms) p result = spectral_loop svd_S ms p (result + ln v)"
    using Cons.hyps(1) by simp
  also have "\<dots> = Inr (exp (result + ln v) * prod_list vs)"
    by (rule Cons.IH)
  also have "exp (result + ln v) * prod_list vs = exp result * prod_list (v # vs)"
    using Cons.hyps(1) by (simp add: exp_add)
  finally show ?case .
qed

text \<open>
  A child that is not one of the four layer classes adds nothing to the result,
  whatever it contains: when its own traversal returns, the loop goes on with
  \<open>result\<close> unchanged.
\<close>

lemma calc_norm_drops_nested:
  assumes "name \<notin> set layer_names" and "calc_norm cs p q result = Inr v"
  shows "calc_norm (Module name True w cs # rest) p q result = calc_norm rest p q result"
  using assms by simp

lemma spectral_loop_drops_nested:
  assumes "get_name child \<notin> set layer_names"
    and "calc_spectral_norm svd_S child p result = Inr v"
  shows "spectral_loop svd_S (child # rest) p result = spectral_loop svd_S rest p result"
  using assms by simp

text \<open>
  Claim C1. On the model \<^verbatim>\<open>[nn.Sequential(linear_2)]\<close>, whose only layer sits one
  level down and has \<open>l\<^sub>2\<^sub>,\<^sub>2\<close> norm 2, \<open>calc_norm\<close> with \<open>result = 0\<close> returns
  \<open>exp 0 = 1\<close> and not the product 2 of the per-layer norms; on the flat list
  \<^verbatim>\<open>[linear_2]\<close> it returns 2.
\<close>

theorem calc_norm_ignores_nested_layers:
  "calc_norm [Module ''Sequential'' True Missing [linear_2]] 2 2 0 = Inr 1
   \<and> norm_pq linear_2 2 2 = Inr 2
   \<and> calc_norm [linear_2] 2 2 0 = Inr 2"
  by (simp add: norm_pq_def linear_2_def numeral_eq_enat layer_names_def)

text \<open>
  Claim C5. On a network whose only layer \<open>linear_2\<close> sits inside an
  \<^verbatim>\<open>nn.Sequential\<close>, with the singular value 2 of its \<open>1 \<times> 1\<close> weight matrix,
  \<open>calc_spectral_norm\<close> with \<open>p = \<infinity>\<close> and \<open>result = 0\<close> returns \<open>exp 0 = 1\<close> and
  not the product 2 of the per-layer operator norms; with the layer as a direct child
  it returns 2.
\<close>

theorem calc_spectral_norm_ignores_nested_layers:
  "calc_spectral_norm (\<lambda>rows. [2])
      (Module ''Network'' False Missing [Module ''Sequential'' True Missing [linear_2]]) \<infinity> 0
     = Inr 1
   \<and> op_norm (\<lambda>rows. [2]) linear_2 \<infinity> = Inr 2
   \<and> calc_spectral_norm (\<lambda>rows. [2]) (Module ''Network'' False Missing [linear_2]) \<infinity> 0
     = Inr 2"
  by (simp add: op_norm_def linear_2_def layer_names_def)

section \<open>Properties of validate\<close>

subsection \<open>The loop over the labels and the selection of the diagonal\<close>

lemma fill_targets_eq:
  "i + length ts = length m \<Longrightarrow> list_all2 (\<lambda>row t. t < length row) (drop i m) ts \<Longrightarrow>
   fill_targets m ts i = Inr (take i m @ map2 fill_row (drop i m) ts)"
proof (induction ts arbitrary: m i)
  case Nil
  then show ?case by simp
next
  case (Cons t ts)
  from Cons.prems(1) have i: "i < length m" by simp
  then have d: "drop i m = m ! i # drop (Suc i) m"
    by (simp add: Cons_nth_drop_Suc)
  with Cons.prems(2) have t: "t < length (m ! i)"
    and rest: "list_all2 (\<lambda>row t. t < length row) (drop (Suc i) m) ts"
    by simp_all
  let ?m' = "m[i := (m ! i)[t := Min (set (m ! i))]]"
  have "fill_targets ?m' ts (Suc i) = Inr (take (Suc i) ?m' @ map2 fill_row (drop (Suc i) ?m') ts)"
    using Cons.prems(1) rest by (intro Cons.IH) simp_all
  moreover have "take (Suc i) ?m' = take i m @ [fill_row (m ! i) t]"
    using i by (simp add: take_Suc_conv_app_nth fill_row_def)
  ultimately show ?case
    using i t d by (auto simp: Let_def)
qed

lemma argmax_less: "xs \<noteq> [] \<Longrightarrow> argmax xs < length xs"
proof -
  assume "xs \<noteq> []"
  then have "Max (set xs) \<in> set xs" by (intro Max_in) simp_all
  then have "takeWhile (\<lambda>x. x \<noteq> Max (set xs)) xs \<noteq> xs"
    by (metis (mono_tags, lifting) takeWhile_eq_all_conv)
  then show ?thesis
    unfolding argmax_def
    by (metis length_takeWhile_le le_neq_implies_less takeWhile_eq_take take_all_iff order_refl)
qed

lemma nth_argmax: "xs \<noteq> [] \<Longrightarrow> xs ! argmax xs = Max (set xs)"
  using argmax_less [of xs] nth_length_takeWhile [of "\<lambda>x. x \<noteq> Max (set xs)" xs]
  by (auto simp: argmax_def)

lemma set_update_others:
  assumes "t < length row"
  shows "set (row[t := v]) = insert v {row ! j | j. j < length row \<and> j \<noteq> t}"
proof (intro set_eqI iffI)
  fix x assume "x \<in> set (row[t := v])"
  then obtain k where "k < length row" "x = row[t := v] ! k"
    by (auto simp: in_set_conv_nth)
  then show "x \<in> insert v {row ! j | j. j < length row \<and> j \<noteq> t}"
    by (cases "k = t") auto
next
  fix x assume "x \<in> insert v {row ! j | j. j < length row \<and> j \<noteq> t}"
  then consider "x = v" | j where "j < length row" "j \<noteq> t" "x = row ! j" by auto
  then show "x \<in> set (row[t := v])"
  proof cases
    case 1
    then show ?thesis using assms by (simp add: set_update_memI)
  next
    case 2
    then have "row[t := v] ! j = x" by simp
    then show ?thesis using 2(1) by (metis length_list_update nth_mem)
  qed
qed

lemma Max_fill_row:
  assumes "t < length row" and "2 \<le> length row"
  shows "Max (set (fill_row row t)) = Max {row ! j | j. j < length row \<and> j \<noteq> t}"
proof -
  let ?A = "{row ! j | j. j < length row \<and> j \<noteq> t}"
  have fin: "finite ?A" by simp
  obtain j where j: "j < length row" "j \<noteq> t"
    using assms by (cases "t = 0") (auto intro: that [of 0] that [of 1])
  then have ne: "?A \<noteq> {}" by blast
  have "row ! j \<in> set row" using j by simp
  then have "Min (set row) \<le> row ! j" by simp
  also have "row ! j \<le> Max ?A" using j fin by (intro Max_ge) auto
  finally have le: "Min (set row) \<le> Max ?A" .
  have "Max (set (fill_row row t)) = Max (insert (Min (set row)) ?A)"
    using assms(1) by (simp add: fill_row_def set_update_others)
  also have "\<dots> = max (Min (set row)) (Max ?A)"
    using fin ne by (rule Max_insert)
  also have "\<dots> = Max ?A" using le by simp
  finally show ?thesis .
qed


lemma set_others:
  assumes "t < length row"
  shows "set (take t row @ drop (Suc t) row) = {row ! j | j. j < length row \<and> j \<noteq> t}"
proof (intro set_eqI iffI)
  fix x assume "x \<in> set (take t row @ drop (Suc t) row)"
  then consider "x \<in> set (take t row)" | "x \<in> set (drop (Suc t) row)" by auto
  then show "x \<in> {row ! j | j. j < length row \<and> j \<noteq> t}"
  proof cases
    case 1
    then obtain k where "k < length (take t row)" "take t row ! k = x"
      by (auto simp: in_set_conv_nth)
    then have "k < t" "x = row ! k" using assms by simp_all
    then show ?thesis using assms by auto
  next
    case 2
    then obtain k where "k < length (drop (Suc t) row)" "drop (Suc t) row ! k = x"
      by (auto simp: in_set_conv_nth)
    then have "Suc t + k < length row" "x = row ! (Suc t + k)" using assms by simp_all
    then show ?thesis by (intro CollectI exI [of _ "Suc t + k"]) simp
  qed
next
  fix x assume "x \<in> {row ! j | j. j < length row \<and> j \<noteq> t}"
  then obtain j where j: "j < length row" "j \<noteq> t" "x = row ! j" by auto
  show "x \<in> set (take t row @ drop (Suc t) row)"
  proof (cases "j < t")
    case True
    then have "take t row ! j = x" "j < length (take t row)" using j assms by simp_all
    then have "x \<in> set (take t row)" by (metis nth_mem)
    then show ?thesis by simp
  next
    case False
    with j have gt: "Suc t \<le> j" by simp
    then have "drop (Suc t) row ! (j - Suc t) = x" "j - Suc t < length (drop (Suc t) row)"
      using j by simp_all
    then have "x \<in> set (drop (Suc t) row)" by (metis nth_mem)
    then show ?thesis by simp
  qed
qed

lemma diag_index_cols:
  assumes "length idx = length m"
    and "list_all (\<lambda>row. list_all (\<lambda>k. k < length row) idx) m"
  shows "\<exists>M. index_cols m idx = Inr M \<and> diag M = map (\<lambda>i. m ! i ! (idx ! i)) [0..<length m]"
proof -
  let ?M = "map (\<lambda>row. map (\<lambda>k. row ! k) idx) m"
  have "index_cols m idx = Inr ?M" using assms(2) by (simp add: index_cols_def)
  moreover have "diag ?M = map (\<lambda>i. m ! i ! (idx ! i)) [0..<length m]"
  proof -
    have "(case ?M of [] \<Rightarrow> 0 | r # _ \<Rightarrow> length r) = (if m = [] then 0 else length idx)"
      by (cases m) simp_all
    then have "diag ?M = map (\<lambda>i. ?M ! i ! i) [0..<length m]"
      using assms(1) by (simp add: diag_def)
    also have "\<dots> = map (\<lambda>i. m ! i ! (idx ! i)) [0..<length m]"
      using assms(1) by (intro map_cong) simp_all
    finally show ?thesis .
  qed
  ultimately show ?thesis by blast
qed

lemma batch_margin_closed:
  assumes wf: "wf_batch c output target" and c: "1 \<le> c"
  shows "batch_margin output target =
           Inr (map2 (\<lambda>row t. row ! t - Max (set (fill_row row t))) output target)"
proof -
  let ?B = "length output"
  define om where "om = map2 fill_row output target"
  from wf have len: "length target = ?B"
    and rows: "\<And>i. i < ?B \<Longrightarrow> length (output ! i) = c"
    and tgt: "\<And>i. i < ?B \<Longrightarrow> target ! i < c"
    by (simp_all add: wf_batch_def list_all_length)
  have "list_all2 (\<lambda>row t. t < length row) output target"
    using len rows tgt by (simp add: list_all2_conv_all_nth)
  then have ft: "fill_targets output target 0 = Inr om"
    using len fill_targets_eq [of 0 target "output"] by (simp add: om_def)
  have om_len: "length om = ?B" using len by (simp add: om_def)
  have om_nth: "\<And>i. i < ?B \<Longrightarrow> om ! i = fill_row (output ! i) (target ! i)"
    using len by (simp add: om_def)
  have om_row: "\<And>i. i < ?B \<Longrightarrow> length (om ! i) = c"
    using rows by (simp add: om_nth fill_row_def)
  have "list_all (\<lambda>row. list_all (\<lambda>k. k < length row) target) output"
    using len rows tgt by (simp add: list_all_length)
  with len obtain T where T: "index_cols output target = Inr T"
    "diag T = map (\<lambda>i. output ! i ! (target ! i)) [0..<?B]"
    using diag_index_cols [of target "output"] by auto
  have ne: "\<And>i. i < ?B \<Longrightarrow> om ! i \<noteq> []"
    using om_row c by fastforce
  have am: "\<And>i. i < ?B \<Longrightarrow> argmax (om ! i) < c"
    using om_row ne argmax_less by metis
  have "list_all (\<lambda>row. list_all (\<lambda>k. k < length row) (map argmax om)) om"
    using am om_row om_len by (simp add: list_all_length)
  then obtain M where M: "index_cols om (map argmax om) = Inr M"
    "diag M = map (\<lambda>i. om ! i ! (map argmax om ! i)) [0..<length om]"
    using diag_index_cols [of "map argmax om" om] by auto
  have dM: "diag M = map (\<lambda>i. Max (set (fill_row (output ! i) (target ! i)))) [0..<?B]"
    unfolding M(2) om_len
    using ne nth_argmax om_len by (intro map_cong) (simp_all add: om_nth [symmetric])
  have "tsub (diag T) (diag M) =
          Inr (map2 (\<lambda>row t. row ! t - Max (set (fill_row row t))) output target)"
    unfolding T(2) dM tsub_def using len
    by (auto intro!: nth_equalityI)
  then show ?thesis
    by (simp add: batch_margin_def ft T(1) M(1))
qed


subsection \<open>The accumulators in closed form\<close>

lemma is_scores_wf:
  assumes "wf_batch c output target" and "1 \<le> c"
  shows "is_scores output (length target)"
  using assms by (cases "output") (auto simp: wf_batch_def is_scores_def list_all_iff)

lemma gap_eq:
  assumes "t < length row" and "2 \<le> length row"
  shows "row ! t - Max (set (fill_row row t)) = gap row t"
  using assms set_others [of t row] by (simp add: gap_def Max_fill_row del: set_append)

lemma batch_margin_gap:
  assumes wf: "wf_batch c output target" and c: "2 \<le> c"
  shows "batch_margin output target = Inr (map2 gap output target)"
proof -
  have "map2 (\<lambda>row t. row ! t - Max (set (fill_row row t))) output target
          = map2 gap output target"
  proof (intro map_cong refl)
    fix z assume "z \<in> set (zip output target)"
    then have "fst z \<in> set output" "snd z \<in> set target"
      by (metis in_set_zipE prod.collapse)+
    then have "length (fst z) = c" "snd z < c"
      using wf by (auto simp: wf_batch_def list_all_iff)
    then show "(case z of (row, t) \<Rightarrow> row ! t - Max (set (fill_row row t)))
                 = (case z of (row, t) \<Rightarrow> gap row t)"
      using c by (simp add: case_prod_unfold gap_eq)
  qed
  moreover have "1 \<le> c" using c by simp
  ultimately show ?thesis using batch_margin_closed [OF wf] by simp
qed

lemma correct_count:
  "length (filter (\<lambda>(p, t). p = t) (zip (map argmax output) target))
     = length (filter (\<lambda>(row, t). argmax row = t) (zip output target))"
proof -
  have "zip (map argmax output) target = map (\<lambda>(row, t). (argmax row, t)) (zip output target)"
    by (simp add: zip_map1)
  then show ?thesis
    by (simp add: filter_map comp_def case_prod_unfold)
qed

lemma validate_batch_closed:
  assumes wf: "wf_batch c (model (map fst b)) (map snd b)" and c: "2 \<le> c"
  shows "validate_batch model criterion a b =
           Inr \<lparr>sum_loss = sum_loss a + real (length b) * criterion (model (map fst b)) (map snd b),
                sum_correct = sum_correct a
                  + length (filter (\<lambda>(row, t). argmax row = t) (zip (model (map fst b)) (map snd b))),
                margin = margin a @ map2 gap (model (map fst b)) (map snd b)\<rparr>"
proof -
  have "is_scores (model (map fst b)) (length b)"
    using is_scores_wf [OF wf] c by simp
  then show ?thesis
    by (simp add: validate_batch_def Let_def batch_margin_gap [OF wf c] correct_count)
qed

lemma validate_loop_closed:
  assumes "list_all (\<lambda>b. wf_batch c (model (map fst b)) (map snd b)) bs" and "2 \<le> c"
  shows "validate_loop model criterion bs a =
           Inr \<lparr>sum_loss = sum_loss a + weighted_loss model criterion bs,
                sum_correct = sum_correct a + n_correct model bs,
                margin = margin a @ all_margins model bs\<rparr>"
  using assms
proof (induction bs arbitrary: a)
  case Nil
  then show ?case by (simp add: weighted_loss_def n_correct_def all_margins_def)
next
  case (Cons b bs)
  then have wf: "wf_batch c (model (map fst b)) (map snd b)" by simp
  show ?case
    using Cons
    by (simp add: validate_batch_closed [of c model b, OF wf Cons.prems(2)] weighted_loss_def n_correct_def
        all_margins_def add.assoc)
qed

lemma all_margins_length:
  assumes "list_all (\<lambda>b. wf_batch c (model (map fst b)) (map snd b)) bs"
  shows "length (all_margins model bs) = n_examples bs"
  using assms
  by (induction bs) (auto simp: all_margins_def n_examples_def wf_batch_def)

subsection \<open>The example evaluation set\<close>

lemma example_wf:
  "list_all (\<lambda>b. wf_batch 3 (example_net (map fst b)) (map snd b)) (batches example_loader)"
  by (simp add: example_loader_def example_net_def wf_batch_def)

lemma example_n_examples: "n_examples (batches example_loader) = 3"
  by (simp add: example_loader_def n_examples_def)

lemma example_n_correct: "n_correct example_net (batches example_loader) = 2"
  by (simp add: example_loader_def example_net_def n_correct_def argmax_def)

lemma example_weighted_loss:
  "weighted_loss example_net (\<lambda>out tg. 1) (batches example_loader) = 3"
  by (simp add: example_loader_def weighted_loss_def)

lemma example_all_margins: "all_margins example_net (batches example_loader) = [2, 2, -6]"
  by (simp add: example_loader_def example_net_def all_margins_def gap_def)

lemma example_percentile: "np_percentile [2, 2, -6] 5 = - (26 / 5)"
  by (simp add: np_percentile_def)

lemma example_batch_wf: "wf_batch 3 (example_net (map fst example_batch)) (map snd example_batch)"
  by (simp add: example_batch_def example_net_def wf_batch_def)

lemma example_batch_eval:
  "validate_batch example_net (\<lambda>out tg. 1) acc0 example_batch
     = Inr \<lparr>sum_loss = 2, sum_correct = 2, margin = [2, 2]\<rparr>"
proof -
  have c: "(2::nat) \<le> 3" by simp
  show ?thesis
    unfolding validate_batch_closed
        [where model = example_net and b = example_batch, OF example_batch_wf c]
    by (simp add: example_batch_def example_net_def acc0_def argmax_def gap_def)
qed

lemma example_best_other: "Max {[1, 5, 3 :: real] ! j | j. j < 3 \<and> j \<noteq> 1} = 3"
proof -
  have "{[1, 5, 3 :: real] ! j | j. j < 3 \<and> j \<noteq> 1} = {1, 3}"
  proof (intro set_eqI iffI)
    fix x assume "x \<in> {[1, 5, 3 :: real] ! j | j. j < 3 \<and> j \<noteq> 1}"
    then obtain j where "j < 3" "j \<noteq> 1" "x = [1, 5, 3] ! j" by auto
    then have "j = 0 \<or> j = 2" by arith
    then show "x \<in> {1, 3}" using \<open>x = [1, 5, 3] ! j\<close> by auto
  next
    fix x :: real assume "x \<in> {1, 3}"
    then consider "x = 1" | "x = 3" by auto
    then show "x \<in> {[1, 5, 3 :: real] ! j | j. j < 3 \<and> j \<noteq> 1}"
    proof cases
      case 1 then show ?thesis by (intro CollectI exI [of _ 0]) simp
    next
      case 2 then show ?thesis by (intro CollectI exI [of _ 2]) simp
    qed
  qed
  then show ?thesis by simp
qed

lemma validate_returns_example:
  "train_validate example_net example_loader (\<lambda>out tg. 1) = Inr (1 / 3, 1, - (26 / 5))"
proof -
  have c: "(2::nat) \<le> 3" by simp
  have "sampler_len example_loader = 3" by (simp add: example_loader_def)
  then show ?thesis
    by (simp add: train_validate_def validate_loop_closed [OF example_wf c]
        example_n_correct example_weighted_loss example_all_margins example_percentile
        percentile_def)
qed

subsection \<open>The per-example margin\<close>

text \<open>
  Claim C4. In \<open>validate\<close>, for a batch whose output has one row of \<open>c \<ge> 2\<close>
  scores per example and whose labels are classes, the loop body succeeds and appends
  to \<^verbatim>\<open>margin\<close> one value per example of the batch, and the value appended for
  example \<open>i\<close> is \<open>output[i, target[i]]\<close> minus the largest \<open>output[i, j]\<close> over the
  classes \<open>j \<noteq> target[i]\<close>. Both files share the loop body.
\<close>

theorem margin_is_gap_to_best_other_class:
  assumes wf: "wf_batch c (model (map fst b)) (map snd b)" and c: "2 \<le> c"
    and i: "i < length b"
  shows "\<exists>ms a'. validate_batch model criterion a b = Inr a'
           \<and> batch_margin (model (map fst b)) (map snd b) = Inr ms
           \<and> margin a' = margin a @ ms \<and> length ms = length b
           \<and> ms ! i = model (map fst b) ! i ! snd (b ! i)
                - Max {model (map fst b) ! i ! j | j. j < c \<and> j \<noteq> snd (b ! i)}"
proof -
  let ?out = "model (map fst b)" and ?tgt = "map snd b"
  let ?ms = "map2 gap ?out ?tgt"
  from wf i have len: "length ?out = length b"
    and row: "length (?out ! i) = c" and t: "?tgt ! i < c"
    by (simp_all add: wf_batch_def list_all_length)
  have ti: "?tgt ! i = snd (b ! i)" using i by simp
  have "?ms ! i = gap (?out ! i) (?tgt ! i)" using i len by simp
  also have "\<dots> = ?out ! i ! (?tgt ! i)
      - Max {?out ! i ! j | j. j < c \<and> j \<noteq> ?tgt ! i}"
    using set_others [of "?tgt ! i" "?out ! i"] t row by (simp add: gap_def del: set_append)
  finally have nth: "?ms ! i = ?out ! i ! snd (b ! i)
      - Max {?out ! i ! j | j. j < c \<and> j \<noteq> snd (b ! i)}"
    unfolding ti .
  have "validate_batch model criterion a b =
          Inr \<lparr>sum_loss = sum_loss a + real (length b) * criterion ?out ?tgt,
               sum_correct = sum_correct a
                 + length (filter (\<lambda>(row, t). argmax row = t) (zip ?out ?tgt)),
               margin = margin a @ ?ms\<rparr>"
    by (rule validate_batch_closed [where model = model and b = b, OF wf c])
  moreover have "batch_margin ?out ?tgt = Inr ?ms"
    by (rule batch_margin_gap [where target = "map snd b", OF wf c])
  moreover have "length ?ms = length b" using len by simp
  ultimately show ?thesis using nth by auto
qed

theorem margin_is_gap_to_best_other_class_witness:
  "wf_batch 3 (example_net (map fst example_batch)) (map snd example_batch)
   \<and> (2::nat) \<le> 3 \<and> 0 < length example_batch
   \<and> validate_batch example_net (\<lambda>out tg. 1) acc0 example_batch
       = Inr \<lparr>sum_loss = 2, sum_correct = 2, margin = [2, 2]\<rparr>
   \<and> (\<exists>ms a'. validate_batch example_net (\<lambda>out tg. 1) acc0 example_batch = Inr a'
         \<and> batch_margin (example_net (map fst example_batch)) (map snd example_batch) = Inr ms
         \<and> margin a' = margin acc0 @ ms \<and> length ms = length example_batch
         \<and> ms ! 0 = example_net (map fst example_batch) ! 0 ! snd (example_batch ! 0)
              - Max {example_net (map fst example_batch) ! 0 ! j | j. j < 3 \<and> j \<noteq> snd (example_batch ! 0)})
   \<and> example_net (map fst example_batch) ! 0 ! snd (example_batch ! 0)
        - Max {example_net (map fst example_batch) ! 0 ! j | j. j < 3 \<and> j \<noteq> snd (example_batch ! 0)}
       = 2"
proof -
  have c: "(2::nat) \<le> 3" and i: "0 < length example_batch"
    by (simp_all add: example_batch_def)
  have v: "example_net (map fst example_batch) ! 0 ! snd (example_batch ! 0)
        - Max {example_net (map fst example_batch) ! 0 ! j | j. j < 3 \<and> j \<noteq> snd (example_batch ! 0)}
       = 2"
    using example_best_other by (simp add: example_batch_def example_net_def)
  show ?thesis
    using example_batch_wf c i example_batch_eval v
      margin_is_gap_to_best_other_class [where model = example_net and b = example_batch and i = 0
        and criterion = "\<lambda>out tg. 1" and a = acc0, OF example_batch_wf c i]
    by blast
qed

subsection \<open>The returned triple\<close>

text \<open>
  Claim C10. On an evaluation set of \<open>n > 0\<close> examples in well-formed batches of
  \<open>c \<ge> 2\<close> classes, \<open>validate\<close> returns 1 minus the fraction of examples whose
  predicted class is the label, the average of the batch losses weighted by the batch
  lengths, and the 5th percentile of the per-example margins of the whole set; this
  holds for train.py when the sampler has \<open>n\<close> entries and for main.py when the
  dataset has.
\<close>

theorem validate_returns_error_loss_percentile:
  assumes wf: "list_all (\<lambda>b. wf_batch c (model (map fst b)) (map snd b)) (batches dl)"
    and c: "2 \<le> c" and n: "n_examples (batches dl) = n" "0 < n"
  shows "(sampler_len dl = n \<longrightarrow>
            train_validate model dl criterion =
              Inr (1 - real (n_correct model (batches dl)) / real n,
                   weighted_loss model criterion (batches dl) / real n,
                   np_percentile (all_margins model (batches dl)) 5))
       \<and> (dataset_len dl = n \<longrightarrow>
            main_validate model dl criterion =
              Inr (1 - real (n_correct model (batches dl)) / real n,
                   weighted_loss model criterion (batches dl) / real n,
                   np_percentile (all_margins model (batches dl)) 5))"
proof -
  have "length (all_margins model (batches dl)) = n"
    using all_margins_length [OF wf] n by simp
  then have ne: "all_margins model (batches dl) \<noteq> []" using n(2) by auto
  show ?thesis
    using ne n(2)
    by (simp add: train_validate_def main_validate_def validate_loop_closed [OF wf c]
        percentile_def)
qed

theorem validate_returns_error_loss_percentile_witness:
  "list_all (\<lambda>b. wf_batch 3 (example_net (map fst b)) (map snd b)) (batches example_loader)
   \<and> n_examples (batches example_loader) = 3
   \<and> sampler_len example_loader = 3 \<and> dataset_len example_loader = 3
   \<and> train_validate example_net example_loader (\<lambda>out tg. 1) = Inr (1 / 3, 1, - (26 / 5))
   \<and> main_validate example_net example_loader (\<lambda>out tg. 1) = Inr (1 / 3, 1, - (26 / 5))"
proof -
  have s: "sampler_len example_loader = 3" "dataset_len example_loader = 3"
    by (simp_all add: example_loader_def)
  show ?thesis
    using validate_returns_error_loss_percentile
            [OF example_wf _ example_n_examples, of "\<lambda>out tg. 1"]
      example_wf example_n_examples s
    by (simp add: example_n_correct example_weighted_loss example_all_margins
        example_percentile)
qed

section \<open>Properties of the sharpness computation\<close>

lemma add_module_perturbation_replaces:
  "add_module_perturbation plain_linear_3 (1 / 2)
     = Inr (Module ''Linear'' False (Plain (Tensor [Tensor [Scalar 2]])) [])"
  by (simp add: add_module_perturbation_def plain_linear_3_def)

lemma calc_sharpness_example:
  "calc_sharpness (\<lambda>m. example_net) plain_model example_loader (\<lambda>out tg. 1) = Inl TypeError"
proof -
  have "train_validate example_net example_loader (\<lambda>out tg. 1) = Inr (1 / 3, 1, - (26 / 5))"
    using validate_returns_example by simp
  then show ?thesis
    by (simp add: calc_sharpness_def plain_model_def plain_linear_3_def layer_names_def
        add_module_perturbation_def)
qed

text \<open>
  Claim C6. \<open>calc_sharpness\<close> returns no value on any input: whenever both
  evaluations and the perturbation go through, the last line applies \<^verbatim>\<open>torch.max\<close>
  to a Python float and raises \<^verbatim>\<open>TypeError\<close> (as on the model \<open>plain_model\<close>).
  The perturbation itself sets the weight to \<open>v = alpha * (|w| + 1)\<close> instead of adding
  \<open>v\<close> to it (weight 3 and \<open>alpha = 1/2\<close> give the weight 2, not 5), and on a layer
  whose weight is a registered parameter, such as \<open>linear_2\<close>, the assignment raises
  \<^verbatim>\<open>TypeError\<close>.
\<close>

theorem calc_sharpness_never_returns:
  "calc_sharpness net model train_loader criterion \<noteq> Inr v
   \<and> calc_sharpness (\<lambda>m. example_net) plain_model example_loader (\<lambda>out tg. 1) = Inl TypeError
   \<and> add_module_perturbation plain_linear_3 (1 / 2)
       = Inr (Module ''Linear'' False (Plain (Tensor [Tensor [Scalar 2]])) [])
   \<and> add_module_perturbation linear_2 alpha = Inl TypeError"
proof -
  have "calc_sharpness net model train_loader criterion \<noteq> Inr v"
    by (auto simp: calc_sharpness_def Let_def split: sum.splits prod.splits)
  moreover have "add_module_perturbation linear_2 alpha = Inl TypeError"
    by (simp add: add_module_perturbation_def linear_2_def)
  ultimately show ?thesis
    using calc_sharpness_example add_module_perturbation_replaces by simp
qed

section \<open>Properties of the path norm\<close>

subsection \<open>The loop over the copied parameters\<close>

lemma tmap_tmap: "tmap f (tmap g t) = tmap (\<lambda>x. f (g x)) t"
  by (induction t) simp_all

lemma loop_fresh:
  "abs_pow_loop False p (map (\<lambda>k. length s + length pre + k) [0..<length todo]) (s @ pre @ todo)
     = (Inr (), s @ pre @ map (\<lambda>q. q\<lparr>data := abs_pow p q\<rparr>) todo)"
proof (induction todo arbitrary: pre)
  case Nil
  then show ?case by simp
next
  case (Cons x xs)
  let ?x' = "x\<lparr>data := abs_pow p x\<rparr>"
  let ?a = "length s + length pre"
  let ?rest = "map (\<lambda>k. length s + length (pre @ [?x']) + k) [0..<length xs]"
  have idx: "map (\<lambda>k. length s + length pre + k) [0..<length (x # xs)] = ?a # ?rest"
    by (simp add: upt_conv_Cons map_Suc_upt [symmetric] del: upt_Suc)
  have nth: "(s @ pre @ x # xs) ! ?a = x"
    by (simp add: nth_append)
  have upd: "(s @ pre @ x # xs)[?a := ?x'] = s @ (pre @ [?x']) @ xs"
    by (simp add: list_update_append)
  have step: "abs_pow_loop False p (?a # ?rest) (s @ pre @ x # xs)
                = abs_pow_loop False p ?rest (s @ (pre @ [?x']) @ xs)"
  proof (cases "requires_grad x")
    case True
    then have "?x' = x\<lparr>data := tmap (\<lambda>w. w ^ p) (tmap abs (data x))\<rparr>"
      by (simp add: abs_pow_def tmap_tmap)
    then show ?thesis
      using True nth upd by (simp only: abs_pow_loop.simps Let_def if_True if_False)
  next
    case False
    then have "?x' = x" by (simp add: abs_pow_def)
    then have s2: "s @ (pre @ [?x']) @ xs = s @ pre @ x # xs" by simp
    show ?thesis
      using False nth by (simp only: abs_pow_loop.simps Let_def if_False s2)
  qed
  have ih: "abs_pow_loop False p ?rest (s @ (pre @ [?x']) @ xs)
          = (Inr (), s @ (pre @ [?x']) @ map (\<lambda>q. q\<lparr>data := abs_pow p q\<rparr>) xs)"
    by (rule Cons.IH)
  have fin: "s @ (pre @ [?x']) @ map (\<lambda>q. q\<lparr>data := abs_pow p q\<rparr>) xs
               = s @ pre @ map (\<lambda>q. q\<lparr>data := abs_pow p q\<rparr>) (x # xs)"
    by simp
  show ?case
    by (simp only: idx step ih fin)
qed


lemma loop_prefix:
  "list_all (\<lambda>a. n \<le> a) as \<Longrightarrow> take n (snd (abs_pow_loop grad p as S)) = take n S"
  by (induction as arbitrary: S) (auto simp: Let_def)

text \<open>While autograd is recording, the loop stops at the first trainable parameter.\<close>

lemma loop_recording:
  "abs_pow_loop True p (map (\<lambda>k. length s + length pre + k) [0..<length todo]) (s @ pre @ todo)
     = (if list_ex requires_grad todo then Inl RuntimeError else Inr (), s @ pre @ todo)"
proof (induction todo arbitrary: pre)
  case Nil
  then show ?case by simp
next
  case (Cons x xs)
  let ?a = "length s + length pre"
  let ?rest = "map (\<lambda>k. length s + length (pre @ [x]) + k) [0..<length xs]"
  have idx: "map (\<lambda>k. length s + length pre + k) [0..<length (x # xs)] = ?a # ?rest"
    by (simp add: upt_conv_Cons map_Suc_upt [symmetric] del: upt_Suc)
  have nth: "(s @ pre @ x # xs) ! ?a = x"
    by (simp add: nth_append)
  have same: "s @ (pre @ [x]) @ xs = s @ pre @ x # xs" by simp
  have ih: "abs_pow_loop True p ?rest (s @ (pre @ [x]) @ xs)
      = (if list_ex requires_grad xs then Inl RuntimeError else Inr (), s @ (pre @ [x]) @ xs)"
    by (rule Cons.IH)
  show ?case
  proof (cases "requires_grad x")
    case True
    then show ?thesis
      unfolding idx using nth by (simp add: Let_def)
  next
    case False
    have "abs_pow_loop True p (?a # ?rest) (s @ pre @ x # xs)
            = abs_pow_loop True p ?rest (s @ (pre @ [x]) @ xs)"
      using False nth by (simp only: abs_pow_loop.simps Let_def if_False same)
    moreover have "list_ex requires_grad (x # xs) = list_ex requires_grad xs"
      using False by simp
    ultimately show ?thesis
      unfolding idx using ih by (simp only: same)
  qed
qed

lemma copied_values:
  "map (\<lambda>a. data ((s @ map (\<lambda>q. q\<lparr>data := abs_pow p q\<rparr>) (map (\<lambda>a. s ! a) as)) ! a))
       (map (\<lambda>k. length s + k) [0..<length as])
     = map (\<lambda>a. abs_pow p (s ! a)) as"
  by (rule nth_equalityI) (simp_all add: nth_append del: upt_Suc)

subsection \<open>The example model\<close>

lemma replicate_2: "replicate 2 x = [x, x]"
  by (simp add: numeral_2_eq_2)

lemma sqrt_16: "sqrt 16 = 4"
  by (rule real_sqrt_unique) simp_all

lemma example_path_norm_spec: "lp_path_norm_spec example_network 2 [2] example_store = Inr (Finite 4)"
  by (simp add: lp_path_norm_spec_def example_network_def example_store_def abs_pow_def
      weighted_sum_def pow_inv_def replicate_2 sqrt_16)

lemma example_wf_network: "wf_network example_store example_network"
  by (simp add: wf_network_def example_store_def example_network_def)

subsection \<open>The value\<close>

text \<open>
  Called while autograd is not recording, for every model, every order \<open>p \<ge> 1\<close> and
  every input size, \<open>lp_path_norm\<close> gives the path norm of the specification (the
  network's exception when it raises, and \<^verbatim>\<open>nan\<close> when the sum is negative and
  \<open>p > 1\<close>).
\<close>

lemma lp_path_norm_without_grad:
  assumes "1 \<le> p"
  shows "fst (lp_path_norm False model p input_size s) = lp_path_norm_spec model p input_size s"
proof -
  let ?copies = "map (\<lambda>a. s ! a) (net_params model)"
  let ?tmp = "map (\<lambda>k. length s + k) [0..<length (net_params model)]"
  have "abs_pow_loop False p (map (\<lambda>k. length s + length ([]::store) + k) [0..<length ?copies])
          (s @ [] @ ?copies) = (Inr (), s @ [] @ map (\<lambda>q. q\<lparr>data := abs_pow p q\<rparr>) ?copies)"
    by (rule loop_fresh)
  then have loop: "abs_pow_loop False p ?tmp (s @ ?copies)
      = (Inr (), s @ map (\<lambda>q. q\<lparr>data := abs_pow p q\<rparr>) ?copies)"
    by simp
  show ?thesis
    using assms copied_values [of s p "net_params model"]
    by (simp add: lp_path_norm_def lp_path_norm_spec_def deepcopy_def loop
        split: sum.splits del: upt_Suc)
qed

lemma example_path_norm_no_grad:
  "fst (lp_path_norm False example_network 2 [2] example_store) = Inr (Finite 4)"
  using lp_path_norm_without_grad [of 2 example_network "[2]" example_store]
    example_path_norm_spec
  by simp

lemma example_trainable:
  "list_ex (\<lambda>a. requires_grad (example_store ! a)) (net_params example_network)"
  by (simp add: example_store_def example_network_def)

text \<open>
  Claim C3. Called as it is written, while autograd is recording, on a model with at
  least one trainable parameter, \<open>lp_path_norm\<close> returns no path norm for any order
  and input size: \<^verbatim>\<open>abs_\<close> on the first trainable parameter of the copy raises
  \<^verbatim>\<open>RuntimeError\<close>. On the example model the path norm of the specification is 4.
\<close>

theorem lp_path_norm_raises_while_recording:
  assumes "list_ex (\<lambda>a. requires_grad (s ! a)) (net_params model)"
  shows "fst (lp_path_norm True model p input_size s) = Inl RuntimeError"
proof -
  let ?copies = "map (\<lambda>a. s ! a) (net_params model)"
  let ?tmp = "map (\<lambda>k. length s + k) [0..<length (net_params model)]"
  have ex: "list_ex requires_grad ?copies"
    using assms by (simp add: list_ex_iff)
  have "abs_pow_loop True p (map (\<lambda>k. length s + length ([]::store) + k) [0..<length ?copies])
          (s @ [] @ ?copies)
          = (if list_ex requires_grad ?copies then Inl RuntimeError else Inr (), s @ [] @ ?copies)"
    by (rule loop_recording)
  then have loop: "abs_pow_loop True p ?tmp (s @ ?copies) = (Inl RuntimeError, s @ ?copies)"
    using ex by simp
  show ?thesis
    by (simp add: lp_path_norm_def deepcopy_def loop del: upt_Suc)
qed

theorem lp_path_norm_raises_while_recording_witness:
  "list_ex (\<lambda>a. requires_grad (example_store ! a)) (net_params example_network)
   \<and> fst (lp_path_norm True example_network 2 [2] example_store) = Inl RuntimeError
   \<and> lp_path_norm_spec example_network 2 [2] example_store = Inr (Finite 4)
   \<and> fst (lp_path_norm False example_network 2 [2] example_store) = Inr (Finite 4)"
  using lp_path_norm_raises_while_recording [OF example_trainable, of 2 "[2]"]
    example_trainable example_path_norm_spec example_path_norm_no_grad
  by simp

subsection \<open>The frame\<close>

text \<open>
  Claim C9. Whatever the mode, the order and the outcome, the call leaves every object
  that was in the store as it was; in particular every parameter of the model has the
  value after the call that it had before.
\<close>

theorem lp_path_norm_leaves_model_unchanged:
  assumes "wf_network s model"
  shows "take (length s) (snd (lp_path_norm grad model p input_size s)) = s
       \<and> map (\<lambda>a. snd (lp_path_norm grad model p input_size s) ! a) (net_params model)
           = map (\<lambda>a. s ! a) (net_params model)"
proof -
  let ?s' = "snd (lp_path_norm grad model p input_size s)"
  let ?copies = "map (\<lambda>a. s ! a) (net_params model)"
  let ?tmp = "map (\<lambda>k. length s + k) [0..<length (net_params model)]"
  have "list_all (\<lambda>a. length s \<le> a) ?tmp" by (simp add: list_all_iff)
  then have "take (length s) (snd (abs_pow_loop grad p ?tmp (s @ ?copies))) = take (length s) (s @ ?copies)"
    by (rule loop_prefix)
  moreover have "?s' = snd (abs_pow_loop grad p ?tmp (s @ ?copies))"
    by (simp add: lp_path_norm_def deepcopy_def Let_def split: prod.splits sum.splits
        del: upt_Suc)
  ultimately have pre: "take (length s) ?s' = s" by simp
  have "\<And>a. a < length s \<Longrightarrow> ?s' ! a = s ! a"
    using pre by (metis nth_take)
  then have "map (\<lambda>a. ?s' ! a) (net_params model) = map (\<lambda>a. s ! a) (net_params model)"
    using assms by (intro map_cong refl) (simp add: wf_network_def list_all_iff)
  with pre show ?thesis by simp
qed

theorem lp_path_norm_leaves_model_unchanged_witness:
  "wf_network example_store example_network
   \<and> take (length example_store)
        (snd (lp_path_norm False example_network 2 [2] example_store)) = example_store
   \<and> map (\<lambda>a. snd (lp_path_norm False example_network 2 [2] example_store) ! a)
        (net_params example_network)
       = map (\<lambda>a. example_store ! a) (net_params example_network)"
  using lp_path_norm_leaves_model_unchanged [OF example_wf_network, of False 2 "[2]"]
    example_wf_network
  by simp

section \<open>Properties of the entry points\<close>

text \<open>
  Claim C7. With \<^verbatim>\<open>--model fc\<close> main.py prints "no valid model input." and returns
  without building or training a network, whatever the other arguments and the
  environment; train.py with \<^verbatim>\<open>--network fc\<close> reaches its training loop with a
  fully connected network.
\<close>

theorem main_py_fc_returns_without_training:
  "main_py env (args\<lparr>args_model := ''fc''\<rparr>) = Inr (NoTraining ''no valid model input.'')
   \<and> train_py cifar_env train_fc = Inr (TrainingLoop FC 50000)"
  by (simp add: main_py_def train_py_def cifar_env_def train_fc_def)



end
